theory Spec2Isabelle
  imports Complex_Main
begin

section \<open>UpShot: the screenshot watcher of \<^verbatim>\<open>upshot.py\<close>\<close>

text \<open>
  The program watches the screenshot directory with a \<^verbatim>\<open>watchdog\<close> observer, and its
  \<^verbatim>\<open>ScreenshotHandler\<close> uploads every new screenshot to Phabricator, copies the URL to the
  clipboard and posts a Growl notification. The model below follows \<^verbatim>\<open>upshot.py\<close>
  method by method. Everything the code does to the outside (remote calls, clipboard,
  notifications, Finder) is appended to a trace, in the order in which the code does it.
\<close>

subsection \<open>Data\<close>

type_synonym path = string

text \<open>Exceptions that can leave the handler. The source catches none of them.\<close>

datatype error =
    OSError path          \<comment> \<open>\<^verbatim>\<open>os.path.getctime\<close> on a path that does not exist\<close>
  | IOError path          \<comment> \<open>\<^verbatim>\<open>open(f, "rb")\<close> on a path that does not exist\<close>
  | ConduitError string   \<comment> \<open>a failed call of the Phabricator client (network, authentication)\<close>
  | KeyError string       \<comment> \<open>a key missing from the answer of \<^verbatim>\<open>file.info\<close>\<close>

text \<open>The events of \<^verbatim>\<open>watchdog.events\<close>; only the first and the third are imported by the source.\<close>

datatype event =
    FileCreatedEvent path
  | DirCreatedEvent path
  | FileMovedEvent path path
  | DirMovedEvent path path
  | FileModifiedEvent path
  | FileDeletedEvent path

fun src_path :: "event \<Rightarrow> path" where
  "src_path (FileCreatedEvent p) = p"
| "src_path (DirCreatedEvent p) = p"
| "src_path (FileMovedEvent p d) = p"
| "src_path (DirMovedEvent p d) = p"
| "src_path (FileModifiedEvent p) = p"
| "src_path (FileDeletedEvent p) = p"

datatype remote_call =
    FileUpload string     \<comment> \<open>\<^verbatim>\<open>PHAB.file.upload(data_base64=...)\<close>\<close>
  | FileInfo string       \<comment> \<open>\<^verbatim>\<open>PHAB.file.info(phid=...)\<close>\<close>

datatype callback = NotifyCallback   \<comment> \<open>the bound method \<^verbatim>\<open>self.notify_callback\<close>\<close>

record notification =
  n_title :: string
  n_body :: string
  n_context :: "path option"
  n_callback :: "callback option"

datatype effect =
    Remote remote_call
  | Pbcopy string                 \<comment> \<open>\<^verbatim>\<open>utils.pbcopy(url)\<close>\<close>
  | Notify notification           \<comment> \<open>\<^verbatim>\<open>growl.notify(...)\<close>\<close>
  | Reveal path                   \<comment> \<open>\<^verbatim>\<open>activateFileViewerSelectingURLs_\<close>\<close>

record file_info =
  f_ctime :: real
  f_data :: string

text \<open>
  The world the handler runs in: the clock, the file system, the preferences, the helpers
  of \<^verbatim>\<open>lib.utils\<close> and the Phabricator server, and the trace of what has been done.
  \<^verbatim>\<open>utils.is_screenshot\<close> and the image transform behind \<^verbatim>\<open>utils.resampleRetinaImage\<close>
  are not in the source files; they are parameters here.
\<close>

record world =
  now :: real                                       \<comment> \<open>\<^verbatim>\<open>time.time()\<close>\<close>
  files :: "path \<rightharpoonup> file_info"
  is_screenshot :: "path \<Rightarrow> bool"                    \<comment> \<open>\<^verbatim>\<open>utils.is_screenshot\<close>\<close>
  retinascale :: bool                               \<comment> \<open>\<^verbatim>\<open>utils.get_pref('retinascale')\<close>\<close>
  iconset :: string                                 \<comment> \<open>\<^verbatim>\<open>utils.get_pref('iconset')\<close>\<close>
  rescale :: "string \<Rightarrow> string"                     \<comment> \<open>the image transform\<close>
  phab_upload :: "string \<Rightarrow> error + string"          \<comment> \<open>answer of \<^verbatim>\<open>file.upload\<close>: the PHID\<close>
  phab_info :: "string \<Rightarrow> error + (string \<times> string) list"  \<comment> \<open>answer of \<^verbatim>\<open>file.info\<close>: a dict\<close>
  trace :: "effect list"

definition emit :: "effect \<Rightarrow> world \<Rightarrow> world" where
  "emit e w = w\<lparr>trace := trace w @ [e]\<rparr>"

definition TIME_THRESHOLD :: real where
  "TIME_THRESHOLD = 15"

subsection \<open>Library functions used by the handler\<close>

text \<open>\<^verbatim>\<open>os.path.basename\<close>: what follows the last slash.\<close>

definition basename :: "path \<Rightarrow> string" where
  "basename p = rev (takeWhile (\<lambda>c. c \<noteq> CHR ''/'') (rev p))"

text \<open>\<^verbatim>\<open>s.startswith('.')\<close>\<close>

fun startswith_dot :: "string \<Rightarrow> bool" where
  "startswith_dot [] = False"
| "startswith_dot (c # cs) = (c = CHR ''.'')"

text \<open>\<^verbatim>\<open>base64.b64encode\<close> (RFC 3548, standard alphabet, padded).\<close>

definition b64_alphabet :: string where
  "b64_alphabet = ''ABCDEFGHIJKLMNOPQRSTUVWXYZabcdefghijklmnopqrstuvwxyz0123456789+/''"

definition b64_digit :: "nat \<Rightarrow> char" where
  "b64_digit n = b64_alphabet ! (n mod 64)"

fun b64encode :: "string \<Rightarrow> string" where
  "b64encode [] = []"
| "b64encode [a] =
     (let x = (of_char a :: nat) in
      [b64_digit (x div 4), b64_digit ((x mod 4) * 16), CHR ''='', CHR ''=''])"
| "b64encode [a, b] =
     (let x = (of_char a :: nat); y = (of_char b :: nat) in
      [b64_digit (x div 4), b64_digit ((x mod 4) * 16 + y div 16),
       b64_digit ((y mod 16) * 4), CHR ''=''])"
| "b64encode (a # b # c # rest) =
     (let x = (of_char a :: nat); y = (of_char b :: nat); z = (of_char c :: nat) in
      [b64_digit (x div 4), b64_digit ((x mod 4) * 16 + y div 16),
       b64_digit ((y mod 16) * 4 + z div 64), b64_digit (z mod 64)] @ b64encode rest)"

text \<open>
  Modelled from the spec: \<^verbatim>\<open>utils.resampleRetinaImage(source, target)\<close> of \<^verbatim>\<open>lib/utils\<close>,
  which is not among the source files. The spec calls it an image-rescale transform applied
  before upload; the model stores the transformed bytes of \<open>source\<close> at \<open>target\<close>, and
  leaves the file system alone when \<open>source\<close> does not exist.
\<close>

definition resampleRetinaImage :: "path \<Rightarrow> path \<Rightarrow> world \<Rightarrow> world" where
  "resampleRetinaImage source target w =
     (case files w source of
        None \<Rightarrow> w
      | Some fi \<Rightarrow> w\<lparr>files := (files w)(target \<mapsto> fi\<lparr>f_data := rescale w (f_data fi)\<rparr>)\<rparr>)"

subsection \<open>\<^verbatim>\<open>ScreenshotHandler\<close>\<close>

text \<open>
  A handler method either returns (\<open>Inr\<close>, the new world) or raises (\<open>Inl\<close>, the exception
  and the world as the code left it when it raised).
\<close>

type_synonym outcome = "error \<times> world + world"

definition shared_text :: "string \<Rightarrow> string \<Rightarrow> string \<Rightarrow> string" where
  "shared_text url phid object_name =
     ''Your URL is: '' @ url @ [CHR 0x0A] @
     ''PHID is: '' @ phid @ [CHR 0x0A] @
     ''FILE is: '' @ object_name @ [CHR 0x0A] @
     ''Click here to view file.''"

definition handle_screenshot_candidate :: "path \<Rightarrow> world \<Rightarrow> outcome" where
  "handle_screenshot_candidate f w =
     (case files w f of
        None \<Rightarrow> Inl (OSError f, w)
      | Some fi \<Rightarrow>
          if f_ctime fi - now w > TIME_THRESHOLD then Inr w
          else if \<not> is_screenshot w f then Inr w
          else
            let w1 = (if retinascale w then resampleRetinaImage f f w else w) in
            (case files w1 f of
               None \<Rightarrow> Inl (IOError f, w1)
             | Some image_file \<Rightarrow>
                 let encoded_string = b64encode (f_data image_file);
                     w2 = emit (Remote (FileUpload encoded_string)) w1
                 in
                 (case phab_upload w encoded_string of
                    Inl e \<Rightarrow> Inl (e, w2)
                  | Inr phid \<Rightarrow>
                      let w3 = emit (Remote (FileInfo phid)) w2 in
                      (case phab_info w phid of
                         Inl e \<Rightarrow> Inl (e, w3)
                       | Inr result \<Rightarrow>
                           (case map_of result ''uri'' of
                              None \<Rightarrow> Inl (KeyError ''uri'', w3)
                            | Some url \<Rightarrow>
                                (case map_of result ''objectName'' of
                                   None \<Rightarrow> Inl (KeyError ''objectName'', w3)
                                 | Some object_name \<Rightarrow>
                                     Inr (emit (Notify \<lparr>n_title = ''Screenshot shared!'',
                                                        n_body = shared_text url phid object_name,
                                                        n_context = Some f,
                                                        n_callback = Some NotifyCallback\<rparr>)
                                           (emit (Pbcopy url) w3))))))))"

definition on_created :: "event \<Rightarrow> world \<Rightarrow> outcome" where
  "on_created ev w =
     (let f = src_path ev in
      if (case ev of FileCreatedEvent _ \<Rightarrow> True | _ \<Rightarrow> False)
         \<and> \<not> startswith_dot (basename f)
      then handle_screenshot_candidate f w
      else Inr w)"

definition on_moved :: "event \<Rightarrow> world \<Rightarrow> outcome" where
  "on_moved ev w =
     (case ev of
        FileMovedEvent src dest_path \<Rightarrow> handle_screenshot_candidate dest_path w
      | _ \<Rightarrow> Inr w)"

definition notify_callback :: "path \<Rightarrow> world \<Rightarrow> world" where
  "notify_callback filepath w = emit (Reveal filepath) w"

text \<open>
  \<^verbatim>\<open>FileSystemEventHandler.dispatch\<close> of watchdog, inherited by the handler: a created event
  goes to \<open>on_created\<close>, a moved event to \<open>on_moved\<close>; the other methods are the inherited
  ones, which do nothing.
\<close>

fun dispatch :: "event \<Rightarrow> world \<Rightarrow> outcome" where
  "dispatch (FileCreatedEvent p) w = on_created (FileCreatedEvent p) w"
| "dispatch (DirCreatedEvent p) w = on_created (DirCreatedEvent p) w"
| "dispatch (FileMovedEvent p d) w = on_moved (FileMovedEvent p d) w"
| "dispatch (DirMovedEvent p d) w = on_moved (DirMovedEvent p d) w"
| "dispatch (FileModifiedEvent p) w = Inr w"
| "dispatch (FileDeletedEvent p) w = Inr w"

text \<open>The world a call leaves behind, whether it returned or raised.\<close>

fun world_after :: "outcome \<Rightarrow> world" where
  "world_after (Inl (e, w)) = w"
| "world_after (Inr w) = w"

fun raised :: "outcome \<Rightarrow> error option" where
  "raised (Inl (e, w)) = Some e"
| "raised (Inr w) = None"

text \<open>The remote calls of a trace, in order, and the number of uploads among them.\<close>

fun remote_calls :: "effect list \<Rightarrow> remote_call list" where
  "remote_calls [] = []"
| "remote_calls (Remote c # es) = c # remote_calls es"
| "remote_calls (e # es) = remote_calls es"

fun is_upload :: "remote_call \<Rightarrow> bool" where
  "is_upload (FileUpload d) = True"
| "is_upload (FileInfo p) = False"

definition uploads :: "world \<Rightarrow> nat" where
  "uploads w = length (filter is_upload (remote_calls (trace w)))"

subsection \<open>\<^verbatim>\<open>Upshot\<close>: the application object\<close>

text \<open>
  The fields of \<^verbatim>\<open>Upshot\<close> that the listening methods read or write. \<open>observer\<close> is the
  field \<^verbatim>\<open>self.observer\<close>: \<open>None\<close>, or the identity of the \<^verbatim>\<open>Observer\<close> object it refers to.
  \<open>statusitem\<close> is \<open>None\<close> until \<^verbatim>\<open>build_menu\<close> has run, and then names the image shown
  in the status bar; \<open>icon16_template\<close> is the template flag of \<^verbatim>\<open>images['icon16']\<close>.

  The \<^verbatim>\<open>Observer\<close> objects belong to watchdog. \<^verbatim>\<open>Observer()\<close> makes a new object, here the
  next unused number; \<^verbatim>\<open>start()\<close> starts its thread, which from then on calls the handler
  scheduled on it for every event of the watched directory; \<^verbatim>\<open>stop()\<close> followed by
  \<^verbatim>\<open>join()\<close> ends that thread before returning. \<open>alive\<close> lists the observers whose
  thread is running, in the order in which they were started. The calls of \<^verbatim>\<open>log.debug\<close>
  are left out.
\<close>

record upshot =
  observer :: "nat option"
  statusitem :: "string option"
  icon16_template :: bool
  alive :: "nat list"
  next_observer :: nat
  env :: world

definition build_menu :: "upshot \<Rightarrow> upshot" where
  "build_menu s =
     s\<lparr>icon16_template := (iconset (env s) = ''grayscale''), statusitem := Some ''icon16''\<rparr>"

definition update_menu :: "upshot \<Rightarrow> upshot" where
  "update_menu s =
     (case statusitem s of
        None \<Rightarrow> s
      | Some img \<Rightarrow>
          let running = (observer s \<noteq> None) in
          s\<lparr>icon16_template := (iconset (env s) = ''grayscale''),
            statusitem := Some (if running then ''icon16'' else ''icon16-off'')\<rparr>)"

definition growl_notify :: "string \<Rightarrow> string \<Rightarrow> upshot \<Rightarrow> upshot" where
  "growl_notify t b s =
     s\<lparr>env := emit (Notify \<lparr>n_title = t, n_body = b, n_context = None, n_callback = None\<rparr>)
                 (env s)\<rparr>"

definition startListening :: "upshot \<Rightarrow> upshot" where
  "startListening s =
     (let new = next_observer s;
          s1 = s\<lparr>observer := Some new, next_observer := Suc new\<rparr>;
          s2 = s1\<lparr>alive := alive s1 @ [new]\<rparr>;
          s3 = update_menu s2
      in growl_notify ''UpShot started'' ''and listening for screenshots!'' s3)"

definition stopListening :: "upshot \<Rightarrow> upshot" where
  "stopListening s =
     update_menu
       (case observer s of
          Some ob \<Rightarrow>
            growl_notify ''UpShot paused'' ''Not listening for screenshots for now!''
              (s\<lparr>alive := removeAll ob (alive s), observer := None\<rparr>)
        | None \<Rightarrow> s)"

definition restart :: "upshot \<Rightarrow> upshot" where
  "restart s = startListening (stopListening s)"

definition applicationDidFinishLaunching :: "upshot \<Rightarrow> upshot" where
  "applicationDidFinishLaunching s = startListening (build_menu s)"

text \<open>
  An event of the watched directory: the thread of every observer that is alive calls
  \<open>dispatch\<close> of its handler with it, one observer after the other. The loop of watchdog's
  thread catches nothing but the time-out of its queue, so an exception that leaves
  \<open>dispatch\<close> ends the thread: that observer is alive no longer and takes no later event.
  A call of the handler runs to its end before anything else happens.
\<close>

fun deliver_to :: "event \<Rightarrow> nat list \<Rightarrow> world \<Rightarrow> nat list \<times> world" where
  "deliver_to ev [] w = ([], w)"
| "deliver_to ev (ob # obs) w =
     (case dispatch ev w of
        Inr w1 \<Rightarrow> (case deliver_to ev obs w1 of (obs', w') \<Rightarrow> (ob # obs', w'))
      | Inl (e, w1) \<Rightarrow> deliver_to ev obs w1)"

definition deliver :: "event \<Rightarrow> upshot \<Rightarrow> upshot" where
  "deliver ev s =
     (case deliver_to ev (alive s) (env s) of (obs, w) \<Rightarrow> s\<lparr>alive := obs, env := w\<rparr>)"

text \<open>The state of a freshly allocated \<^verbatim>\<open>Upshot\<close> object, in a given world.\<close>

definition init :: "world \<Rightarrow> upshot" where
  "init w = \<lparr>observer = None, statusitem = None, icon16_template = False,
             alive = [], next_observer = 0, env = w\<rparr>"

text \<open>
  The state in which the dispatcher's field accounts for every observer that is alive:
  none when the field is \<open>None\<close>, the one it refers to otherwise.
\<close>

definition single_session :: "upshot \<Rightarrow> bool" where
  "single_session s = (alive s = (case observer s of None \<Rightarrow> [] | Some ob \<Rightarrow> [ob]))"

text \<open>
  The same, allowing for a thread that an exception has ended: no observer is alive, or
  the one the field refers to and no other.
\<close>

definition held_only :: "upshot \<Rightarrow> bool" where
  "held_only s = (alive s = [] \<or> map Some (alive s) = [observer s])"

text \<open>
  The states the program gets into. Cocoa calls \<^verbatim>\<open>applicationDidFinishLaunching_\<close> once, on
  the new application object. After that the menu item calls \<^verbatim>\<open>stopListening_\<close> (the item
  for \<^verbatim>\<open>startListening_\<close> is created hidden and never shown), \<^verbatim>\<open>restart_\<close> stops and
  starts, the preferences window calls \<^verbatim>\<open>update_menu\<close>, the observers deliver events, and
  the world outside (clock, files, server) changes.
\<close>

inductive reachable :: "upshot \<Rightarrow> bool" where
  launched: "reachable (applicationDidFinishLaunching (init w))"
| stopped: "reachable s \<Longrightarrow> reachable (stopListening s)"
| restarted: "reachable s \<Longrightarrow> reachable (restart s)"
| menu_updated: "reachable s \<Longrightarrow> reachable (update_menu s)"
| delivered: "reachable s \<Longrightarrow> reachable (deliver ev s)"
| world_changed: "reachable s \<Longrightarrow> reachable (s\<lparr>env := w\<rparr>)"

subsection \<open>What a call did\<close>

text \<open>The effects a handler call appended to the trace, whether it returned or raised.\<close>

definition done_by :: "(world \<Rightarrow> outcome) \<Rightarrow> world \<Rightarrow> effect list" where
  "done_by h w = drop (length (trace w)) (trace (world_after (h w)))"

text \<open>
  The bytes that \<^verbatim>\<open>image_file.read()\<close> returns for a file whose record was \<open>fi\<close> when the
  handler was entered.
\<close>

definition read_data :: "world \<Rightarrow> file_info \<Rightarrow> string" where
  "read_data w fi = (if retinascale w then rescale w (f_data fi) else f_data fi)"

text \<open>Two events in a row, each dispatched in the world the one before left behind.\<close>

definition after_events :: "event list \<Rightarrow> world \<Rightarrow> world" where
  "after_events evs w = foldl (\<lambda>v ev. world_after (dispatch ev v)) w evs"

subsection \<open>A concrete world\<close>

text \<open>
  A directory with one three-byte file, a server that answers every upload with the same
  PHID, and nothing done so far. The examples below vary its fields.
\<close>

definition shot :: path where
  "shot = ''/d/shot.png''"

definition w0 :: world where
  "w0 = \<lparr>now = 2000,
         files = [shot \<mapsto> \<lparr>f_ctime = 1998, f_data = ''PNG''\<rparr>],
         is_screenshot = (\<lambda>p. True),
         retinascale = False,
         iconset = ''default'',
         rescale = (\<lambda>d. ''png''),
         phab_upload = (\<lambda>d. Inr ''PHID-FILE-1''),
         phab_info = (\<lambda>p. Inr [(''uri'', ''http://phab/F1''), (''objectName'', ''F1'')]),
         trace = []\<rparr>"

definition img :: file_info where
  "img = \<lparr>f_ctime = 1998, f_data = ''PNG''\<rparr>"

text \<open>The same file, created 1000 seconds before the current time.\<close>

definition w_old :: world where
  "w_old = w0\<lparr>files := [shot \<mapsto> \<lparr>f_ctime = 1000, f_data = ''PNG''\<rparr>]\<rparr>"

text \<open>A directory whose only file has a hidden name.\<close>

definition hidden :: path where
  "hidden = ''/d/.tmp_shot.png''"

definition w_hidden :: world where
  "w_hidden = w0\<lparr>files := [hidden \<mapsto> img]\<rparr>"

text \<open>A server that cannot be reached, and the preference \<^verbatim>\<open>retinascale\<close> switched on.\<close>

definition w_fail :: world where
  "w_fail = w0\<lparr>phab_upload := (\<lambda>d. Inl (ConduitError ''network''))\<rparr>"

definition w_retina :: world where
  "w_retina = w0\<lparr>retinascale := True\<rparr>"

section \<open>Properties\<close>

subsection \<open>The trace and the file system under the handler's steps\<close>

lemma trace_emit: "trace (emit e w) = trace w @ [e]"
  by (simp add: emit_def)

lemma files_emit: "files (emit e w) = files w"
  by (simp add: emit_def)

lemma trace_resampleRetinaImage: "trace (resampleRetinaImage a b w) = trace w"
  by (simp add: resampleRetinaImage_def split: option.splits)

lemma files_resample_same:
  "files w f = Some fi \<Longrightarrow>
   files (resampleRetinaImage f f w) = (files w)(f \<mapsto> fi\<lparr>f_data := rescale w (f_data fi)\<rparr>)"
  by (simp add: resampleRetinaImage_def)

lemma handle_accepted:
  assumes "files w f = Some fi" and "\<not> f_ctime fi - now w > TIME_THRESHOLD" and "is_screenshot w f"
  shows "handle_screenshot_candidate f w =
    (let w1 = (if retinascale w then resampleRetinaImage f f w else w);
         enc = b64encode (read_data w fi);
         w2 = emit (Remote (FileUpload enc)) w1 in
      case phab_upload w enc of
        Inl e \<Rightarrow> Inl (e, w2)
      | Inr phid \<Rightarrow>
         let w3 = emit (Remote (FileInfo phid)) w2 in
         (case phab_info w phid of
            Inl e \<Rightarrow> Inl (e, w3)
          | Inr result \<Rightarrow>
             (case map_of result ''uri'' of
                None \<Rightarrow> Inl (KeyError ''uri'', w3)
              | Some url \<Rightarrow>
                 (case map_of result ''objectName'' of
                    None \<Rightarrow> Inl (KeyError ''objectName'', w3)
                  | Some object_name \<Rightarrow>
                      Inr (emit (Notify \<lparr>n_title = ''Screenshot shared!'',
                                         n_body = shared_text url phid object_name,
                                         n_context = Some f,
                                         n_callback = Some NotifyCallback\<rparr>)
                            (emit (Pbcopy url) w3))))))"
  using assms
  by (simp add: handle_screenshot_candidate_def read_data_def files_resample_same Let_def)

lemma trace_grows:
  "trace (world_after (handle_screenshot_candidate f w)) =
   trace w @ done_by (handle_screenshot_candidate f) w"
  by (simp add: done_by_def handle_screenshot_candidate_def Let_def trace_emit
      trace_resampleRetinaImage split: option.splits sum.splits)

lemma remote_calls_append: "remote_calls (xs @ ys) = remote_calls xs @ remote_calls ys"
  by (induction xs rule: remote_calls.induct) simp_all

lemma uploads_handle_le:
  "uploads (world_after (handle_screenshot_candidate f w)) \<le> Suc (uploads w)"
  by (simp add: uploads_def handle_screenshot_candidate_def Let_def trace_emit
      trace_resampleRetinaImage remote_calls_append split: option.splits sum.splits)

lemma on_created_hidden:
  "startswith_dot (basename (src_path ev)) \<Longrightarrow> on_created ev w = Inr w"
  by (simp add: on_created_def)

lemma uploads_dispatch_le: "uploads (world_after (dispatch ev w)) \<le> Suc (uploads w)"
  by (cases ev) (simp_all add: on_created_def on_moved_def uploads_handle_le)

lemma too_new_rejected:
  "files w f = Some fi \<Longrightarrow> now w + TIME_THRESHOLD < f_ctime fi \<Longrightarrow>
   handle_screenshot_candidate f w = Inr w"
  by (simp add: handle_screenshot_candidate_def)

subsection \<open>The fields of the application object under its methods\<close>

lemma update_menu_observer: "observer (update_menu s) = observer s"
  by (simp add: update_menu_def split: option.splits)

lemma update_menu_alive: "alive (update_menu s) = alive s"
  by (simp add: update_menu_def split: option.splits)

lemma update_menu_env: "env (update_menu s) = env s"
  by (simp add: update_menu_def split: option.splits)

lemma update_menu_next: "next_observer (update_menu s) = next_observer s"
  by (simp add: update_menu_def split: option.splits)

lemma update_menu_idem: "update_menu (update_menu s) = update_menu s"
  by (simp add: update_menu_def split: option.splits)

lemma observer_start: "observer (startListening s) = Some (next_observer s)"
  by (simp add: startListening_def Let_def growl_notify_def update_menu_observer)

lemma alive_start: "alive (startListening s) = alive s @ [next_observer s]"
  by (simp add: startListening_def Let_def growl_notify_def update_menu_alive)

lemma next_start: "next_observer (startListening s) = Suc (next_observer s)"
  by (simp add: startListening_def Let_def growl_notify_def update_menu_next)

lemma observer_stop: "observer (stopListening s) = None"
  by (simp add: stopListening_def growl_notify_def update_menu_observer split: option.splits)

lemma alive_stop:
  "alive (stopListening s) = (case observer s of None \<Rightarrow> alive s | Some ob \<Rightarrow> removeAll ob (alive s))"
  by (simp add: stopListening_def growl_notify_def update_menu_alive split: option.splits)

lemma stop_idle: "observer s = None \<Longrightarrow> stopListening s = update_menu s"
  by (simp add: stopListening_def)

lemma single_session_stop: "single_session s \<Longrightarrow> alive (stopListening s) = []"
  by (simp add: single_session_def alive_stop split: option.splits)

lemma update_menu_stop: "update_menu (stopListening s) = stopListening s"
  by (simp add: stopListening_def update_menu_idem)

lemma build_menu_fields:
  "observer (build_menu s) = observer s"
  "alive (build_menu s) = alive s"
  "next_observer (build_menu s) = next_observer s"
  by (simp_all add: build_menu_def)

subsection \<open>Delivery of events\<close>

lemma deliver_nobody: "alive s = [] \<Longrightarrow> deliver ev s = s"
  by (simp add: deliver_def)

lemma deliver_single:
  "alive s = [ob] \<Longrightarrow> env (deliver ev s) = world_after (dispatch ev (env s))"
  by (cases "dispatch ev (env s)") (auto simp: deliver_def)

lemma observer_deliver: "observer (deliver ev s) = observer s"
  by (simp add: deliver_def split: prod.splits)

lemma alive_deliver_single:
  "alive s = [ob] \<Longrightarrow> alive (deliver ev s) = [ob] \<or> alive (deliver ev s) = []"
  by (cases "dispatch ev (env s)") (auto simp: deliver_def)

text \<open>
  An observer whose handler raised takes no later event: with a server that cannot be
  reached the first file is tried once, the exception ends the thread, and a second file is
  not tried at all, although the field still refers to the observer.
\<close>

lemma deliver_after_raise:
  "alive (deliver (FileCreatedEvent shot) (applicationDidFinishLaunching (init w_fail))) = []
   \<and> observer (deliver (FileCreatedEvent shot) (applicationDidFinishLaunching (init w_fail)))
       = Some 0
   \<and> uploads (env (deliver (FileCreatedEvent shot)
        (deliver (FileCreatedEvent shot) (applicationDidFinishLaunching (init w_fail))))) = 1"
proof -
  have one: "alive (deliver (FileCreatedEvent shot)
      (applicationDidFinishLaunching (init w_fail))) = []"
    and held: "observer (deliver (FileCreatedEvent shot)
      (applicationDidFinishLaunching (init w_fail))) = Some 0"
    and tried: "uploads (env (deliver (FileCreatedEvent shot)
      (applicationDidFinishLaunching (init w_fail)))) = 1"
    by (simp_all add: deliver_def applicationDidFinishLaunching_def startListening_def
        build_menu_def update_menu_def growl_notify_def init_def on_created_def basename_def
        handle_screenshot_candidate_def w_fail_def w0_def shot_def TIME_THRESHOLD_def
        emit_def uploads_def Let_def)
  from one held tried show ?thesis
    by (simp add: deliver_nobody)
qed

lemma held_only_deliver: "held_only s \<Longrightarrow> held_only (deliver ev s)"
proof -
  assume h: "held_only s"
  show ?thesis
  proof (cases "alive s")
    case Nil
    then show ?thesis
      by (simp add: deliver_nobody held_only_def)
  next
    case (Cons ob obs)
    with h have one: "alive s = [ob]" and held: "observer s = Some ob"
      by (auto simp: held_only_def)
    from alive_deliver_single [OF one, of ev] held show ?thesis
      by (auto simp: held_only_def observer_deliver)
  qed
qed

lemma held_only_stop: "held_only s \<Longrightarrow> alive (stopListening s) = []"
proof -
  assume h: "held_only s"
  show ?thesis
  proof (cases "alive s")
    case Nil
    then show ?thesis
      by (simp add: alive_stop split: option.splits)
  next
    case (Cons ob obs)
    with h have "alive s = [ob]" and "observer s = Some ob"
      by (auto simp: held_only_def)
    then show ?thesis
      by (simp add: alive_stop)
  qed
qed

lemma held_only_start: "alive s = [] \<Longrightarrow> held_only (startListening s)"
  by (simp add: held_only_def alive_start observer_start)

lemma reachable_held_only: "reachable s \<Longrightarrow> held_only s"
proof (induction rule: reachable.induct)
  case (launched w)
  show ?case
    by (simp add: applicationDidFinishLaunching_def held_only_start build_menu_fields init_def)
next
  case (stopped s)
  then show ?case
    by (simp add: held_only_def held_only_stop)
next
  case (restarted s)
  then show ?case
    by (simp add: restart_def held_only_start held_only_stop)
next
  case (menu_updated s)
  then show ?case
    by (simp add: held_only_def update_menu_alive update_menu_observer)
next
  case (delivered s ev)
  from delivered.IH show ?case
    by (rule held_only_deliver)
next
  case (world_changed s w)
  then show ?case
    by (simp add: held_only_def)
qed

subsection \<open>The concrete world\<close>

lemma w0_accepts:
  "files w0 shot = Some img"
  "\<not> f_ctime img - now w0 > TIME_THRESHOLD"
  "is_screenshot w0 shot"
  by (simp_all add: w0_def img_def TIME_THRESHOLD_def)

lemma b64_PNG: "b64encode ''PNG'' = ''UE5H''"
  by (simp add: b64_digit_def b64_alphabet_def)

lemma b64_png: "b64encode ''png'' = ''cG5n''"
  by (simp add: b64_digit_def b64_alphabet_def)

subsection \<open>The age check\<close>

text \<open>
  C1. The claim: a candidate whose creation time is more than 15 seconds before the current
  time is rejected, and no upload is attempted for it. The comment above the check says the
  same ("Do not act on files that are too old"), but the check subtracts the current time
  from the creation time, so it only fires for files created more than 15 seconds in the
  future. Here the file is 1000 seconds old: the handler returns normally, having uploaded it.
\<close>

theorem old_file_is_uploaded:
  "files w_old shot = Some \<lparr>f_ctime = 1000, f_data = ''PNG''\<rparr>
   \<and> now w_old = 2000
   \<and> raised (handle_screenshot_candidate shot w_old) = None
   \<and> uploads (world_after (handle_screenshot_candidate shot w_old)) = 1"
  by (simp add: handle_screenshot_candidate_def w_old_def w0_def shot_def TIME_THRESHOLD_def
      emit_def uploads_def Let_def)

subsection \<open>Starting twice\<close>

text \<open>
  C2, as stated: a second start while a session is active creates no second session and is
  an error. \<^verbatim>\<open>startListening_\<close> has no guard and raises nothing: started twice on a fresh
  application object, two observers are alive and the field refers to the second.
\<close>

theorem double_start_two_sessions:
  "alive (startListening (startListening (init w0))) = [0, 1]
   \<and> observer (startListening (startListening (init w0))) = Some 1"
  by (simp add: observer_start alive_start next_start init_def)

text \<open>
  C2, amended: start raises no error in any state and makes the observer it has just
  started the dispatcher's session. Started when idle, exactly one session exists
  afterwards, and \<^verbatim>\<open>restart_\<close>, which stops first, keeps exactly one.
\<close>

theorem start_makes_new_session:
  "observer (startListening s) = Some (next_observer s)
   \<and> next_observer s \<in> set (alive (startListening s))
   \<and> (single_session s \<and> observer s = None \<longrightarrow> alive (startListening s) = [next_observer s])
   \<and> (single_session s \<longrightarrow> single_session (restart s) \<and> length (alive (restart s)) = 1)"
  by (simp add: observer_start alive_start single_session_def restart_def single_session_stop)

theorem start_makes_new_session_witness:
  "single_session (init w0) \<and> observer (init w0) = None
   \<and> alive (startListening (init w0)) = [0]
   \<and> single_session (restart (init w0)) \<and> length (alive (restart (init w0))) = 1"
proof -
  have idle: "single_session (init w0) \<and> observer (init w0) = None"
    by (simp add: single_session_def init_def)
  have "next_observer (init w0) = 0"
    by (simp add: init_def)
  with idle start_makes_new_session [of "init w0"] show ?thesis
    by simp
qed

subsection \<open>Hidden names\<close>

text \<open>
  C3. The claim: a path whose file name begins with a dot is rejected whether it arrives by
  a file-created or by a file-moved event, and nothing is uploaded for it. \<^verbatim>\<open>on_created\<close>
  tests the name (lemma \<open>on_created_hidden\<close>); \<^verbatim>\<open>on_moved\<close> passes the destination on
  untested. Here a file is moved to the hidden name \<^verbatim>\<open>/d/.tmp_shot.png\<close>, and it is uploaded.
\<close>

theorem hidden_moved_file_is_uploaded:
  "startswith_dot (basename hidden)
   \<and> raised (dispatch (FileMovedEvent shot hidden) w_hidden) = None
   \<and> uploads (world_after (dispatch (FileMovedEvent shot hidden) w_hidden)) = 1"
  by (simp add: hidden_def basename_def on_moved_def handle_screenshot_candidate_def
      w_hidden_def w0_def img_def TIME_THRESHOLD_def emit_def uploads_def Let_def)

subsection \<open>A failed upload\<close>

text \<open>
  C4, as stated: a failed upload is caught at the dispatcher's boundary. The handler has no
  \<^verbatim>\<open>try\<close>: with a server that cannot be reached, the exception of the upload call leaves
  \<open>dispatch\<close> and reaches the watchdog thread that called it.
\<close>

theorem upload_failure_escapes_handler:
  "raised (dispatch (FileCreatedEvent shot) w_fail) = Some (ConduitError ''network'')"
  by (simp add: on_created_def basename_def handle_screenshot_candidate_def w_fail_def w0_def
      shot_def TIME_THRESHOLD_def emit_def Let_def)

text \<open>
  C4, amended: when the upload call fails for a candidate that passed the checks, its
  exception is not caught: it leaves \<^verbatim>\<open>handle_screenshot_candidate\<close> and \<^verbatim>\<open>on_moved\<close>. Up
  to then the handler has made the upload call and nothing else: nothing is written to the
  clipboard and no notification fires.
\<close>

theorem upload_failure_no_clipboard_no_notification:
  assumes "files w f = Some fi"
    and "\<not> f_ctime fi - now w > TIME_THRESHOLD"
    and "is_screenshot w f"
    and "phab_upload w (b64encode (read_data w fi)) = Inl e"
  shows "raised (handle_screenshot_candidate f w) = Some e
     \<and> raised (on_moved (FileMovedEvent src f) w) = Some e
     \<and> done_by (handle_screenshot_candidate f) w =
         [Remote (FileUpload (b64encode (read_data w fi)))]"
  by (simp add: handle_accepted [OF assms(1-3)] assms(4) on_moved_def done_by_def Let_def
      trace_emit trace_resampleRetinaImage)

theorem upload_failure_no_clipboard_no_notification_witness:
  "files w_fail shot = Some img \<and> \<not> f_ctime img - now w_fail > TIME_THRESHOLD
   \<and> is_screenshot w_fail shot
   \<and> phab_upload w_fail ''UE5H'' = Inl (ConduitError ''network'')
   \<and> raised (handle_screenshot_candidate shot w_fail) = Some (ConduitError ''network'')
   \<and> done_by (handle_screenshot_candidate shot) w_fail = [Remote (FileUpload ''UE5H'')]"
proof -
  have h1: "files w_fail shot = Some img"
    and h2: "\<not> f_ctime img - now w_fail > TIME_THRESHOLD"
    and h3: "is_screenshot w_fail shot"
    using w0_accepts by (simp_all add: w_fail_def)
  have rd: "b64encode (read_data w_fail img) = ''UE5H''"
    by (simp add: read_data_def w_fail_def w0_def img_def b64_digit_def b64_alphabet_def)
  have h4: "phab_upload w_fail (b64encode (read_data w_fail img)) = Inl (ConduitError ''network'')"
    by (simp add: w_fail_def)
  from upload_failure_no_clipboard_no_notification [OF h1 h2 h3 h4] h1 h2 h3 h4 rd
  show ?thesis
    by simp
qed

subsection \<open>The remote calls of one upload\<close>

text \<open>
  C5, as stated: one invocation of the upload performs exactly one remote call. A successful
  upload performs two: \<^verbatim>\<open>file.upload\<close>, then \<^verbatim>\<open>file.info\<close> for the URL and the object name.
\<close>

theorem upload_makes_two_remote_calls:
  "remote_calls (done_by (handle_screenshot_candidate shot) w0) =
     [FileUpload ''UE5H'', FileInfo ''PHID-FILE-1'']
   \<and> length (remote_calls (done_by (handle_screenshot_candidate shot) w0)) \<noteq> 1"
  by (simp add: done_by_def handle_screenshot_candidate_def w0_def shot_def
      TIME_THRESHOLD_def emit_def Let_def b64_digit_def b64_alphabet_def)

text \<open>
  C5, amended: for a candidate that passed the checks, the handler calls \<^verbatim>\<open>file.upload\<close>
  once, with the base64 encoding of the bytes it read, and, when that call succeeds,
  \<^verbatim>\<open>file.info\<close> once with the PHID returned; these are all its remote calls. There is no
  retry: exactly one upload call is made, whether it succeeds or not.
\<close>

theorem upload_then_info_no_retry:
  assumes "files w f = Some fi"
    and "\<not> f_ctime fi - now w > TIME_THRESHOLD"
    and "is_screenshot w f"
  shows "remote_calls (done_by (handle_screenshot_candidate f) w) =
     (case phab_upload w (b64encode (read_data w fi)) of
        Inl e \<Rightarrow> [FileUpload (b64encode (read_data w fi))]
      | Inr phid \<Rightarrow> [FileUpload (b64encode (read_data w fi)), FileInfo phid])
     \<and> length (filter is_upload (remote_calls (done_by (handle_screenshot_candidate f) w))) = 1"
  by (simp add: handle_accepted [OF assms] done_by_def Let_def trace_emit
      trace_resampleRetinaImage split: sum.splits option.splits)

theorem upload_then_info_no_retry_witness:
  "files w_fail shot = Some img \<and> \<not> f_ctime img - now w_fail > TIME_THRESHOLD
   \<and> is_screenshot w_fail shot
   \<and> remote_calls (done_by (handle_screenshot_candidate shot) w_fail) = [FileUpload ''UE5H'']
   \<and> length (filter is_upload
        (remote_calls (done_by (handle_screenshot_candidate shot) w_fail))) = 1"
proof -
  have h1: "files w_fail shot = Some img"
    and h2: "\<not> f_ctime img - now w_fail > TIME_THRESHOLD"
    and h3: "is_screenshot w_fail shot"
    using w0_accepts by (simp_all add: w_fail_def)
  have rd: "b64encode (read_data w_fail img) = ''UE5H''"
    by (simp add: read_data_def w_fail_def w0_def img_def b64_digit_def b64_alphabet_def)
  have up: "phab_upload w_fail ''UE5H'' = Inl (ConduitError ''network'')"
    by (simp add: w_fail_def)
  from upload_then_info_no_retry [OF h1 h2 h3] h1 h2 h3 rd up show ?thesis
    by simp
qed

subsection \<open>A successful upload\<close>

text \<open>
  C6. For a candidate that passed the checks and whose upload succeeds (both remote calls
  answer, and the answer of \<^verbatim>\<open>file.info\<close> has the keys \<^verbatim>\<open>uri\<close> and \<^verbatim>\<open>objectName\<close>), the
  handler returns normally, and what it did is, in this order: one upload, the lookup of
  its result, the URL written to the clipboard, and one notification. The text of the
  notification is the four lines of the source's format string, filled with the URL, the
  PHID and the object name of the file; its context is the path, and its callback is \<^verbatim>\<open>notify_callback\<close>, which, called with that path, reveals the
  file in the Finder.
\<close>

theorem success_clipboard_then_notification:
  assumes "files w f = Some fi"
    and "\<not> f_ctime fi - now w > TIME_THRESHOLD"
    and "is_screenshot w f"
    and "phab_upload w (b64encode (read_data w fi)) = Inr phid"
    and "phab_info w phid = Inr result"
    and "map_of result ''uri'' = Some url"
    and "map_of result ''objectName'' = Some object_name"
  shows "raised (handle_screenshot_candidate f w) = None
     \<and> done_by (handle_screenshot_candidate f) w =
         [Remote (FileUpload (b64encode (read_data w fi))),
          Remote (FileInfo phid),
          Pbcopy url,
          Notify \<lparr>n_title = ''Screenshot shared!'',
                  n_body = ''Your URL is: '' @ url @ [CHR 0x0A] @
                           ''PHID is: '' @ phid @ [CHR 0x0A] @
                           ''FILE is: '' @ object_name @ [CHR 0x0A] @
                           ''Click here to view file.'',
                  n_context = Some f,
                  n_callback = Some NotifyCallback\<rparr>]
     \<and> trace (notify_callback f v) = trace v @ [Reveal f]"
  by (simp add: handle_accepted [OF assms(1-3)] assms(4-7) done_by_def Let_def trace_emit
      trace_resampleRetinaImage notify_callback_def shared_text_def)

theorem success_clipboard_then_notification_witness:
  "files w0 shot = Some img \<and> \<not> f_ctime img - now w0 > TIME_THRESHOLD \<and> is_screenshot w0 shot
   \<and> phab_upload w0 ''UE5H'' = Inr ''PHID-FILE-1''
   \<and> phab_info w0 ''PHID-FILE-1'' = Inr [(''uri'', ''http://phab/F1''), (''objectName'', ''F1'')]
   \<and> raised (handle_screenshot_candidate shot w0) = None
   \<and> done_by (handle_screenshot_candidate shot) w0 =
         [Remote (FileUpload ''UE5H''),
          Remote (FileInfo ''PHID-FILE-1''),
          Pbcopy ''http://phab/F1'',
          Notify \<lparr>n_title = ''Screenshot shared!'',
                  n_body = ''Your URL is: http://phab/F1'' @ [CHR 0x0A] @
                           ''PHID is: PHID-FILE-1'' @ [CHR 0x0A] @
                           ''FILE is: F1'' @ [CHR 0x0A] @
                           ''Click here to view file.'',
                  n_context = Some shot,
                  n_callback = Some NotifyCallback\<rparr>]
   \<and> trace (notify_callback shot w0) = [Reveal shot]"
proof -
  note acc = w0_accepts
  have rd: "b64encode (read_data w0 img) = ''UE5H''"
    by (simp add: read_data_def w0_def img_def b64_digit_def b64_alphabet_def)
  have h4: "phab_upload w0 (b64encode (read_data w0 img)) = Inr ''PHID-FILE-1''"
    by (simp add: w0_def)
  have h5: "phab_info w0 ''PHID-FILE-1'' =
      Inr [(''uri'', ''http://phab/F1''), (''objectName'', ''F1'')]"
    by (simp add: w0_def)
  have h6: "map_of [(''uri'', ''http://phab/F1''), (''objectName'', ''F1'')] ''uri'' =
      Some ''http://phab/F1''"
    by simp
  have h7: "map_of [(''uri'', ''http://phab/F1''), (''objectName'', ''F1'')] ''objectName'' =
      Some ''F1''"
    by simp
  have t0: "trace w0 = []"
    by (simp add: w0_def)
  have up: "phab_upload w0 ''UE5H'' = Inr ''PHID-FILE-1''"
    by (simp add: w0_def)
  from success_clipboard_then_notification [OF acc h4 h5 h6 h7, of w0] acc rd up h5 t0
  show ?thesis
    by simp
qed

subsection \<open>Events after stop\<close>

text \<open>
  C7. In every state the program gets into, once \<^verbatim>\<open>stopListening_\<close> has returned the
  dispatcher holds no observer and no observer is alive: the one it held has been stopped
  and joined, and there was no other. An event that arrives afterwards is delivered to no
  handler: it changes nothing, and nothing is uploaded for it.
\<close>

theorem no_event_after_stop:
  "reachable s \<Longrightarrow>
   observer (stopListening s) = None
   \<and> alive (stopListening s) = []
   \<and> deliver ev (stopListening s) = stopListening s
   \<and> uploads (env (deliver ev (stopListening s))) = uploads (env (stopListening s))"
  by (simp add: observer_stop held_only_stop [OF reachable_held_only] deliver_nobody)

theorem no_event_after_stop_witness:
  "reachable (applicationDidFinishLaunching (init w0))
   \<and> alive (applicationDidFinishLaunching (init w0)) = [0]
   \<and> uploads (env (deliver (FileCreatedEvent shot) (applicationDidFinishLaunching (init w0)))) = 1
   \<and> observer (stopListening (applicationDidFinishLaunching (init w0))) = None
   \<and> alive (stopListening (applicationDidFinishLaunching (init w0))) = []
   \<and> uploads (env (deliver (FileCreatedEvent shot)
        (stopListening (applicationDidFinishLaunching (init w0))))) = 0"
proof -
  have r: "reachable (applicationDidFinishLaunching (init w0))"
    by (rule reachable.launched)
  have a: "alive (applicationDidFinishLaunching (init w0)) = [0]"
    by (simp add: applicationDidFinishLaunching_def alive_start build_menu_fields init_def)
  have "uploads (world_after (dispatch (FileCreatedEvent shot)
      (env (applicationDidFinishLaunching (init w0))))) = 1"
    by (simp add: applicationDidFinishLaunching_def startListening_def
        build_menu_def update_menu_def growl_notify_def init_def on_created_def basename_def
        handle_screenshot_candidate_def w0_def shot_def TIME_THRESHOLD_def emit_def
        uploads_def Let_def)
  then have before: "uploads (env (deliver (FileCreatedEvent shot)
      (applicationDidFinishLaunching (init w0)))) = 1"
    by (simp only: deliver_single [OF a])
  have quiet: "uploads (env (stopListening (applicationDidFinishLaunching (init w0)))) = 0"
    by (simp add: applicationDidFinishLaunching_def startListening_def stopListening_def
        build_menu_def update_menu_def growl_notify_def init_def w0_def emit_def
        uploads_def Let_def)
  from no_event_after_stop [OF r, of "FileCreatedEvent shot"] r a before quiet
  show ?thesis
    by simp
qed

subsection \<open>Stop when idle\<close>

text \<open>
  C8. When no session is active, stop raises nothing and leaves the dispatcher as it is: the
  field stays \<open>None\<close>, no observer is stopped or started, nothing is notified; all it does
  is refresh the status bar icon through \<^verbatim>\<open>update_menu\<close>. In every state, a second stop
  right after a stop changes nothing at all.
\<close>

theorem stop_when_idle_is_noop:
  "(observer s = None \<longrightarrow>
      stopListening s = update_menu s
      \<and> observer (stopListening s) = None
      \<and> alive (stopListening s) = alive s
      \<and> next_observer (stopListening s) = next_observer s
      \<and> env (stopListening s) = env s)
   \<and> stopListening (stopListening s) = stopListening s"
  by (simp add: stop_idle observer_stop update_menu_alive update_menu_next update_menu_env
      update_menu_stop update_menu_observer)

theorem stop_when_idle_is_noop_witness:
  "observer (init w0) = None
   \<and> stopListening (init w0) = init w0
   \<and> stopListening (stopListening (startListening (init w0)))
       = stopListening (startListening (init w0))"
proof -
  have h: "observer (init w0) = None"
    by (simp add: init_def)
  have u: "update_menu (init w0) = init w0"
    by (simp add: update_menu_def init_def)
  from stop_when_idle_is_noop [of "init w0"] stop_when_idle_is_noop [of "startListening (init w0)"]
    h u
  show ?thesis
    by simp
qed

subsection \<open>A creation and a move for the same path\<close>

text \<open>
  C9, as stated: a creation event and a move event for the same final path produce at most
  one upload attempt. The handler remembers no path: both events are handled, and the file
  is uploaded twice.
\<close>

theorem created_then_moved_uploads_twice:
  "uploads w0 = 0
   \<and> uploads (after_events [FileCreatedEvent shot, FileMovedEvent hidden shot] w0) = 2"
  by (simp add: after_events_def on_created_def on_moved_def basename_def
      handle_screenshot_candidate_def w0_def shot_def hidden_def
      TIME_THRESHOLD_def emit_def uploads_def Let_def)

text \<open>
  C9, amended: the handler keeps no record of the paths it has handled; every event is
  handled on its own and produces at most one upload attempt. For the pattern the handler
  is written for, a temporary file with a hidden name that is created and then moved to its
  final name, the creation is skipped, so the pair produces at most one upload attempt.
\<close>

theorem one_upload_per_event:
  "uploads (world_after (dispatch ev w)) \<le> uploads w + 1
   \<and> (startswith_dot (basename tmp) \<longrightarrow>
        uploads (after_events [FileCreatedEvent tmp, FileMovedEvent tmp f] w) \<le> uploads w + 1)"
  using uploads_dispatch_le [of ev w] uploads_handle_le [of f w]
  by (simp add: after_events_def on_created_def on_moved_def)

theorem one_upload_per_event_witness:
  "startswith_dot (basename hidden)
   \<and> uploads w0 = 0
   \<and> uploads (after_events [FileCreatedEvent hidden, FileMovedEvent hidden shot] w0) \<le> 1"
proof -
  have h: "startswith_dot (basename hidden)"
    by (simp add: hidden_def basename_def)
  have z: "uploads w0 = 0"
    by (simp add: uploads_def w0_def)
  from one_upload_per_event [of "FileCreatedEvent hidden" w0 hidden shot] h z show ?thesis
    by simp
qed

subsection \<open>The retina rescale\<close>

text \<open>
  C10. For a candidate that passed the checks: when \<^verbatim>\<open>retinascale\<close> is set, the file is
  overwritten in place with its rescaled image before it is read, so the rescaled bytes are
  what is uploaded and the original content is gone; when it is not set, the file system is
  left as it was and the bytes of the file are uploaded as they are. (In both cases the
  bytes go out base64-encoded, and the upload call is the first thing the handler does to
  the outside.)
\<close>

theorem rescale_in_place_before_read:
  assumes "files w f = Some fi"
    and "\<not> f_ctime fi - now w > TIME_THRESHOLD"
    and "is_screenshot w f"
  shows "(retinascale w \<longrightarrow>
           files (world_after (handle_screenshot_candidate f w)) f =
             Some (fi\<lparr>f_data := rescale w (f_data fi)\<rparr>)
           \<and> take 1 (done_by (handle_screenshot_candidate f) w) =
             [Remote (FileUpload (b64encode (rescale w (f_data fi))))])
       \<and> (\<not> retinascale w \<longrightarrow>
           files (world_after (handle_screenshot_candidate f w)) = files w
           \<and> take 1 (done_by (handle_screenshot_candidate f) w) =
             [Remote (FileUpload (b64encode (f_data fi)))])"
  by (simp add: handle_accepted [OF assms] done_by_def read_data_def Let_def trace_emit
      trace_resampleRetinaImage files_emit files_resample_same [OF assms(1)]
      split: option.splits sum.splits)

theorem rescale_in_place_before_read_witness:
  "files w_retina shot = Some img \<and> \<not> f_ctime img - now w_retina > TIME_THRESHOLD
   \<and> is_screenshot w_retina shot \<and> retinascale w_retina \<and> \<not> retinascale w0
   \<and> files (world_after (handle_screenshot_candidate shot w_retina)) shot =
       Some (img\<lparr>f_data := ''png''\<rparr>)
   \<and> take 1 (done_by (handle_screenshot_candidate shot) w_retina) =
       [Remote (FileUpload ''cG5n'')]
   \<and> files (world_after (handle_screenshot_candidate shot w0)) = files w0
   \<and> take 1 (done_by (handle_screenshot_candidate shot) w0) = [Remote (FileUpload ''UE5H'')]"
proof -
  have h1: "files w_retina shot = Some img"
    and h2: "\<not> f_ctime img - now w_retina > TIME_THRESHOLD"
    and h3: "is_screenshot w_retina shot"
    using w0_accepts by (simp_all add: w_retina_def)
  have r: "retinascale w_retina" "\<not> retinascale w0"
    by (simp_all add: w_retina_def w0_def)
  have d: "rescale w_retina (f_data img) = ''png''" "f_data img = ''PNG''"
    by (simp_all add: w_retina_def w0_def img_def)
  from rescale_in_place_before_read [OF h1 h2 h3] rescale_in_place_before_read [OF w0_accepts]
    h1 h2 h3 r d b64_png b64_PNG
  show ?thesis
    by simp
qed

end
